theory Spec2Isabelle
  imports Complex_Main "HOL-Library.Word"
begin

section \<open>Motor control with RPM monitoring: data model\<close>

text \<open>
  A shallow embedding of \<^verbatim>\<open>srcs/motor_control_ble_pipe.c\<close>.

  \<^item> The global variables of the program are the fields of one record, \<open>state\<close>;
    every C function that writes a global takes the record and returns it updated.
  \<^item> C \<^verbatim>\<open>int\<close> values are \<open>int\<close>: the stored speed stays in 0..100 and the other
    integers are flags, counters below 10 and file descriptors, so no operation of the
    program comes near the 32-bit limits.
  \<^item> The microsecond tick of \<^verbatim>\<open>gpioTick()\<close> is \<^verbatim>\<open>uint32_t\<close>, modelled as \<open>32 word\<close>:
    subtraction wraps as in C.
  \<^item> C \<^verbatim>\<open>double\<close> values are \<open>real\<close>: finite values with exact arithmetic. The results
    about the controller concern comparisons, clamping and the truncating cast to
    \<^verbatim>\<open>int\<close> only. Rounding, infinities and NaN (which \<^verbatim>\<open>atof\<close> returns for the text
    \<^verbatim>\<open>nan\<close>) are outside the model.
  \<^item> The hardware port (pigpio) is external. What the program writes to it is kept in
    the state: \<open>gpio_level\<close> holds the last level written to each pin by
    \<^verbatim>\<open>gpioWrite\<close>, \<open>gpio_pwm\<close> the last duty cycle set on each pin by \<^verbatim>\<open>gpioPWM\<close>. What
    the program reads from it (tick values, results of system calls, lines of
    input) is passed in as arguments.
  \<^item> Console output (\<^verbatim>\<open>printf\<close>) is not modelled.
\<close>

type_synonym u32 = "32 word"

record state =
  g_speed :: int
  g_motor_on :: int
  g_direction :: int
  g_quit :: int
  g_control_mode :: int
  g_desired_rpm :: real
  g_pid_integral :: real
  g_pid_last_error :: real
  g_last_speed_change_time :: u32
  g_pipe_fd :: int
  g_pipe_stream :: bool
  g_rpm_pipe_fd :: int
  g_rpm_pipe_stream :: bool
  pipe_reconnect_timer :: int
  rpm_reconnect_timer :: int
  rpm_sent :: "real list"
  gpio_level :: "nat \<Rightarrow> int"
  gpio_pwm :: "nat \<Rightarrow> int"

text \<open>
  \<open>g_pipe_stream\<close> and \<open>g_rpm_pipe_stream\<close> are \<open>True\<close> when the C pointer is not
  \<^verbatim>\<open>NULL\<close>. \<open>pipe_reconnect_timer\<close> is the local variable of \<^verbatim>\<open>main\<close> and
  \<open>rpm_reconnect_timer\<close> the static local of its loop. \<open>rpm_sent\<close> collects the values
  written to the outbound conduit by \<^verbatim>\<open>sendRPM\<close>, latest first.
\<close>

abbreviation MOTOR_ENABLE_PIN :: nat where "MOTOR_ENABLE_PIN \<equiv> 17"
abbreviation MOTOR_IN1_PIN :: nat where "MOTOR_IN1_PIN \<equiv> 23"
abbreviation MOTOR_IN2_PIN :: nat where "MOTOR_IN2_PIN \<equiv> 24"
abbreviation LED_PIN :: nat where "LED_PIN \<equiv> 25"

definition gpioWrite :: "nat \<Rightarrow> int \<Rightarrow> state \<Rightarrow> state" where
  "gpioWrite pin level s = s\<lparr>gpio_level := (gpio_level s)(pin := level)\<rparr>"

definition gpioPWM :: "nat \<Rightarrow> int \<Rightarrow> state \<Rightarrow> state" where
  "gpioPWM pin duty s = s\<lparr>gpio_pwm := (gpio_pwm s)(pin := duty)\<rparr>"

text \<open>The values of the globals at program start, with every output still at 0.\<close>

definition init_state :: state where
  "init_state = \<lparr>g_speed = 0, g_motor_on = 0, g_direction = 1, g_quit = 0,
     g_control_mode = 0, g_desired_rpm = 0, g_pid_integral = 0, g_pid_last_error = 0,
     g_last_speed_change_time = 0, g_pipe_fd = - 1, g_pipe_stream = False,
     g_rpm_pipe_fd = - 1, g_rpm_pipe_stream = False, pipe_reconnect_timer = 0,
     rpm_reconnect_timer = 0, rpm_sent = [],
     gpio_level = (\<lambda>_. 0), gpio_pwm = (\<lambda>_. 0)\<rparr>"

section \<open>Motor actuator\<close>

definition setDirection :: "int \<Rightarrow> state \<Rightarrow> state" where
  "setDirection dir s =
     (let s1 = s\<lparr>g_direction := dir\<rparr>
      in if dir = 1
         then gpioWrite MOTOR_IN2_PIN 0 (gpioWrite MOTOR_IN1_PIN 1 s1)
         else gpioWrite MOTOR_IN2_PIN 1 (gpioWrite MOTOR_IN1_PIN 0 s1))"

text \<open>
  \<^verbatim>\<open>setSpeed\<close>: the argument is clamped to 0..100 and stored; speed 0 switches the
  motor off, any other speed switches it on with duty \<^verbatim>\<open>(speed * 255) / 100\<close> (both
  operands are non-negative there, so C's truncating division is \<open>div\<close>).
\<close>

definition clamp_speed :: "int \<Rightarrow> int" where
  "clamp_speed speed =
     (let speed1 = (if speed < 0 then 0 else speed)
      in if speed1 > 100 then 100 else speed1)"

definition setSpeed :: "int \<Rightarrow> state \<Rightarrow> state" where
  "setSpeed speed0 s =
     (let speed = clamp_speed speed0;
          s1 = s\<lparr>g_speed := speed\<rparr>
      in if speed = 0
         then gpioWrite LED_PIN 0 (gpioPWM MOTOR_ENABLE_PIN 0 (s1\<lparr>g_motor_on := 0\<rparr>))
         else gpioWrite LED_PIN 1
                (gpioPWM MOTOR_ENABLE_PIN ((speed * 255) div 100) (s1\<lparr>g_motor_on := 1\<rparr>)))"

definition motorOn :: "state \<Rightarrow> state" where
  "motorOn s =
     (if g_motor_on s \<noteq> 0 then s
      else let s1 = (if g_speed s = 0 then s\<lparr>g_speed := 50\<rparr> else s);
               s2 = s1\<lparr>g_motor_on := 1\<rparr>;
               s3 = setDirection (g_direction s2) s2
           in setSpeed (g_speed s3) s3)"

definition motorOff :: "state \<Rightarrow> state" where
  "motorOff s =
     gpioWrite LED_PIN 0
       (gpioWrite MOTOR_IN2_PIN 0
         (gpioWrite MOTOR_IN1_PIN 0
           (gpioPWM MOTOR_ENABLE_PIN 0 (s\<lparr>g_motor_on := 0\<rparr>))))"

section \<open>Properties of the motor actuator\<close>

lemma clamp_speed_range: "0 \<le> clamp_speed x \<and> clamp_speed x \<le> 100"
  by (simp add: clamp_speed_def Let_def)

lemma setSpeed_stored: "g_speed (setSpeed x s) = clamp_speed x"
  by (simp add: setSpeed_def Let_def gpioWrite_def gpioPWM_def)

text \<open>
  Claim C2. Whatever the state before (any speed, any direction, motor on or off),
  after \<^verbatim>\<open>motorOff()\<close> the PWM duty on the enable pin is 0, both direction lines are
  low, the LED line is low and the enabled flag is cleared.
\<close>

theorem motorOff_safe_stop:
  "gpio_pwm (motorOff s) MOTOR_ENABLE_PIN = 0 \<and>
   gpio_level (motorOff s) MOTOR_IN1_PIN = 0 \<and>
   gpio_level (motorOff s) MOTOR_IN2_PIN = 0 \<and>
   gpio_level (motorOff s) LED_PIN = 0 \<and>
   g_motor_on (motorOff s) = 0"
  by (simp add: motorOff_def gpioWrite_def gpioPWM_def)

text \<open>
  Claim C9. \<^verbatim>\<open>motorOff()\<close> is idempotent: a second call in a row changes nothing,
  neither the stored speed, direction and enabled flag nor any other part of the state.
\<close>

theorem motorOff_idempotent:
  "motorOff (motorOff s) = motorOff s \<and>
   g_speed (motorOff (motorOff s)) = g_speed (motorOff s) \<and>
   g_direction (motorOff (motorOff s)) = g_direction (motorOff s) \<and>
   g_motor_on (motorOff (motorOff s)) = g_motor_on (motorOff s)"
proof -
  have "motorOff (motorOff s) = motorOff s"
    by (simp add: motorOff_def gpioWrite_def gpioPWM_def fun_eq_iff)
  then show ?thesis by simp
qed

text \<open>
  Claim C10. \<^verbatim>\<open>setSpeed\<close> writes the enabled flag: when the clamped argument is 0 the
  flag is cleared, the PWM is stopped (duty 0) and the LED line is low; when the
  clamped argument is positive the flag is set and the LED line is high, whatever the
  flag was before, with duty \<^verbatim>\<open>(speed * 255) / 100\<close>.
\<close>

theorem setSpeed_sets_enabled:
  "(clamp_speed x = 0 \<longrightarrow>
      g_motor_on (setSpeed x s) = 0 \<and>
      gpio_pwm (setSpeed x s) MOTOR_ENABLE_PIN = 0 \<and>
      gpio_level (setSpeed x s) LED_PIN = 0) \<and>
   (clamp_speed x > 0 \<longrightarrow>
      g_motor_on (setSpeed x s) = 1 \<and>
      gpio_level (setSpeed x s) LED_PIN = 1 \<and>
      gpio_pwm (setSpeed x s) MOTOR_ENABLE_PIN = (clamp_speed x * 255) div 100)"
  by (simp add: setSpeed_def Let_def gpioWrite_def gpioPWM_def)

theorem setSpeed_sets_enabled_witness:
  "clamp_speed 0 = 0 \<and> g_motor_on (setSpeed 0 (motorOn init_state)) = 0 \<and>
   gpio_pwm (setSpeed 0 (motorOn init_state)) MOTOR_ENABLE_PIN = 0 \<and>
   clamp_speed 40 > 0 \<and> g_motor_on init_state = 0 \<and>
   g_motor_on (setSpeed 40 init_state) = 1 \<and>
   gpio_level (setSpeed 40 init_state) LED_PIN = 1 \<and>
   gpio_pwm (setSpeed 40 init_state) MOTOR_ENABLE_PIN = 102"
  using setSpeed_sets_enabled [of 0 "motorOn init_state"]
    setSpeed_sets_enabled [of 40 init_state]
  by (simp add: clamp_speed_def init_state_def)

section \<open>PID controller\<close>

text \<open>
  The tuning constants of the source. \<^verbatim>\<open>MAX_SPEED_CHANGE\<close> is the integer 2, compared
  with a \<^verbatim>\<open>double\<close>; \<^verbatim>\<open>RPM_STABILIZE_DELAY_US\<close> is 500000, compared with a
  \<^verbatim>\<open>uint32_t\<close>.
\<close>

definition KP :: real where "KP = 3 / 100"
definition KI :: real where "KI = 5 / 1000"
definition KD :: real where "KD = 1 / 100"
definition MAX_INTEGRAL :: real where "MAX_INTEGRAL = 50"
definition MAX_SPEED_CHANGE :: int where "MAX_SPEED_CHANGE = 2"
definition RPM_STABILIZE_DELAY_US :: u32 where "RPM_STABILIZE_DELAY_US = 500000"

text \<open>
  The cast \<^verbatim>\<open>(int)adjustment\<close> of C drops the fractional part (rounds towards zero).
\<close>

definition c_trunc :: "real \<Rightarrow> int" where
  "c_trunc x = (if 0 \<le> x then \<lfloor>x\<rfloor> else \<lceil>x\<rceil>)"

text \<open>
  The elapsed-time computation the source writes out twice, in \<^verbatim>\<open>rpmThread\<close> (lines
  143 to 146) and in \<^verbatim>\<open>pidController\<close> (lines 247 to 250):
  \<^verbatim>\<open>
  uint32_t elapsed = current_time - last;
  if (current_time < last) elapsed = (0xFFFFFFFF - last) + current_time;
  \<close>
\<close>

definition elapsed_since :: "u32 \<Rightarrow> u32 \<Rightarrow> u32" where
  "elapsed_since current_time last_time =
     (let elapsed = current_time - last_time
      in if current_time < last_time then (0xFFFFFFFF - last_time) + current_time
         else elapsed)"

text \<open>
  Four blocks of \<^verbatim>\<open>pidController\<close>, each a pair of statements under its own comment
  in the source: the clamp of the integral (lines 271 and 272), the rate limit on the
  adjustment (lines 287 and 288), the clamp of the new speed to 0..100 (lines 293 and
  294) and the kickstart (lines 298 to 300).
\<close>

definition clamp_integral :: "real \<Rightarrow> real" where
  "clamp_integral integral =
     (let integral1 = (if integral > MAX_INTEGRAL then MAX_INTEGRAL else integral)
      in if integral1 < - MAX_INTEGRAL then - MAX_INTEGRAL else integral1)"

definition rate_limit :: "real \<Rightarrow> real" where
  "rate_limit adjustment =
     (let adjustment1 = (if adjustment > real_of_int MAX_SPEED_CHANGE
                         then real_of_int MAX_SPEED_CHANGE else adjustment)
      in if adjustment1 < - real_of_int MAX_SPEED_CHANGE
         then - real_of_int MAX_SPEED_CHANGE else adjustment1)"

definition clamp_percent :: "int \<Rightarrow> int" where
  "clamp_percent new_speed =
     (let new_speed1 = (if new_speed < 0 then 0 else new_speed)
      in if new_speed1 > 100 then 100 else new_speed1)"

definition kickstart :: "int \<Rightarrow> int \<Rightarrow> int" where
  "kickstart current_speed new_speed =
     (if current_speed = 0 \<and> new_speed > 0 \<and> new_speed < 20 then 20 else new_speed)"

text \<open>
  \<^verbatim>\<open>pidController(current_rpm, desired_rpm)\<close>. It calls \<^verbatim>\<open>gpioTick()\<close> up to twice:
  \<open>tick1\<close> is the value read at line 244 and \<open>tick2\<close> the value read at line 304. The
  result is the returned speed and the updated globals.
\<close>

definition pidController :: "u32 \<Rightarrow> u32 \<Rightarrow> real \<Rightarrow> real \<Rightarrow> state \<Rightarrow> int \<times> state" where
  "pidController tick1 tick2 current_rpm desired_rpm s =
     (if desired_rpm < 1 then
        (0, s\<lparr>g_pid_integral := 0, g_pid_last_error := 0, g_last_speed_change_time := 0\<rparr>)
      else if g_last_speed_change_time s > 0 \<and>
              elapsed_since tick1 (g_last_speed_change_time s) < RPM_STABILIZE_DELAY_US then
        (g_speed s, s)
      else
        let error = desired_rpm - current_rpm;
            p_term = KP * error;
            s1 = (if \<bar>error\<bar> < 500
                  then s\<lparr>g_pid_integral := clamp_integral (g_pid_integral s + error)\<rparr>
                  else s);
            i_term = KI * g_pid_integral s1;
            d_term = KD * (error - g_pid_last_error s1);
            s2 = s1\<lparr>g_pid_last_error := error\<rparr>;
            current_speed = g_speed s2;
            adjustment = rate_limit (p_term + i_term + d_term);
            new_speed = kickstart current_speed
                          (clamp_percent (current_speed + c_trunc adjustment));
            s3 = (if new_speed \<noteq> current_speed
                  then s2\<lparr>g_last_speed_change_time := tick2\<rparr> else s2)
        in (new_speed, s3))"

section \<open>Named pipes\<close>

text \<open>
  \<^verbatim>\<open>openPipe\<close>: \<open>open_fd\<close> is what \<^verbatim>\<open>open(FIFO_PATH, O_RDONLY | O_NONBLOCK)\<close> returns
  (\<open>- 1\<close> on failure) and \<open>fdopen_ok\<close> tells whether \<^verbatim>\<open>fdopen\<close> returns a stream.
\<close>

definition openPipe :: "int \<Rightarrow> bool \<Rightarrow> state \<Rightarrow> state" where
  "openPipe open_fd fdopen_ok s =
     (let s1 = s\<lparr>g_pipe_fd := open_fd\<rparr>
      in if g_pipe_fd s1 = - 1 then s1
         else let s2 = s1\<lparr>g_pipe_stream := fdopen_ok\<rparr>
              in if \<not> g_pipe_stream s2 then s2\<lparr>g_pipe_fd := - 1\<rparr> else s2)"

definition closePipe :: "state \<Rightarrow> state" where
  "closePipe s =
     (let s1 = (if g_pipe_stream s then s\<lparr>g_pipe_stream := False\<rparr> else s)
      in if g_pipe_fd s1 \<noteq> - 1 then s1\<lparr>g_pipe_fd := - 1\<rparr> else s1)"

definition openRPMPipe :: "int \<Rightarrow> bool \<Rightarrow> state \<Rightarrow> state" where
  "openRPMPipe open_fd fdopen_ok s =
     (let s1 = s\<lparr>g_rpm_pipe_fd := open_fd\<rparr>
      in if g_rpm_pipe_fd s1 = - 1 then s1
         else let s2 = s1\<lparr>g_rpm_pipe_stream := fdopen_ok\<rparr>
              in if \<not> g_rpm_pipe_stream s2 then s2\<lparr>g_rpm_pipe_fd := - 1\<rparr> else s2)"

definition closeRPMPipe :: "state \<Rightarrow> state" where
  "closeRPMPipe s =
     (let s1 = (if g_rpm_pipe_stream s then s\<lparr>g_rpm_pipe_stream := False\<rparr> else s)
      in if g_rpm_pipe_fd s1 \<noteq> - 1 then s1\<lparr>g_rpm_pipe_fd := - 1\<rparr> else s1)"

text \<open>\<^verbatim>\<open>sendRPM\<close>: \<open>fputs_ok\<close> tells whether \<^verbatim>\<open>fputs\<close> returns a non-negative value.\<close>

definition sendRPM :: "bool \<Rightarrow> real \<Rightarrow> state \<Rightarrow> state" where
  "sendRPM fputs_ok rpm s =
     (if g_rpm_pipe_stream s
      then (if fputs_ok then s\<lparr>rpm_sent := rpm # rpm_sent s\<rparr> else closeRPMPipe s)
      else s)"

section \<open>Command processing\<close>

text \<open>
  A command line is a C string, here a \<open>string\<close> without the terminating NUL.
  The first two statements of \<^verbatim>\<open>processCommand\<close> cut the line at the first newline
  and then at the first carriage return.
\<close>

definition strip_line :: "string \<Rightarrow> string" where
  "strip_line input =
     takeWhile (\<lambda>c. c \<noteq> CHR 0x0D) (takeWhile (\<lambda>c. c \<noteq> CHR 0x0A) input)"

text \<open>
  \<^verbatim>\<open>processCommand(input)\<close>. The C library's \<^verbatim>\<open>atof\<close> and \<^verbatim>\<open>atoi\<close> are parameters.
  \<^verbatim>\<open>strncmp(input, "auto ", 5) == 0\<close> holds when the first five characters are
  \<^verbatim>\<open>"auto "\<close>, \<^verbatim>\<open>strcmp(input, w) == 0\<close> when the line is \<open>w\<close>, and
  \<^verbatim>\<open>input[0] == 's' && input[1] == ' '\<close> when the first two characters are \<^verbatim>\<open>"s "\<close>
  (\<^verbatim>\<open>input[1]\<close> is the NUL of a one-character line). The \<^verbatim>\<open>rpm\<close> command only prints.
\<close>

definition processCommand ::
  "(string \<Rightarrow> real) \<Rightarrow> (string \<Rightarrow> int) \<Rightarrow> string \<Rightarrow> state \<Rightarrow> state" where
  "processCommand atof atoi input0 s =
     (let input = strip_line input0 in
      if length input = 0 then s
      else if take 5 input = ''auto '' then
        (let desired0 = atof (drop 5 input);
             desired1 = (if desired0 < 0 then 0 else desired0);
             desired = (if desired1 > 10000 then 10000 else desired1);
             s1 = s\<lparr>g_desired_rpm := desired, g_control_mode := 1,
                    g_pid_integral := 0, g_pid_last_error := 0\<rparr>
         in if g_desired_rpm s1 > 0 then
              (if g_motor_on s1 = 0 then
                 (let s2 = s1\<lparr>g_motor_on := 1\<rparr>;
                      s3 = setDirection (g_direction s2) s2;
                      s4 = (if g_speed s3 = 0 then s3\<lparr>g_speed := 30\<rparr> else s3)
                  in setSpeed (g_speed s4) s4)
               else s1)
            else motorOff s1)
      else if input = ''manual'' then s\<lparr>g_control_mode := 0\<rparr>
      else if input = ''on'' then motorOn s
      else if input = ''off'' then motorOff s
      else if input = ''f'' then setDirection 1 s
      else if input = ''r'' then setDirection 0 s
      else if input = ''rpm'' then s
      else if input = ''q'' then s\<lparr>g_quit := 1\<rparr>
      else if g_control_mode s = 1 then s
      else if input = ''+'' then setSpeed (g_speed s + 10) s
      else if input = ''-'' then setSpeed (g_speed s - 10) s
      else if take 2 input = ''s '' then setSpeed (atoi (drop 2 input)) s
      else s)"

section \<open>Control loop\<close>

text \<open>
  What one cycle of the loop of \<^verbatim>\<open>main\<close> reads from outside: the result of
  \<^verbatim>\<open>select\<close> (and whether \<^verbatim>\<open>errno\<close> is \<^verbatim>\<open>EINTR\<close> when it is negative), the two
  \<^verbatim>\<open>FD_ISSET\<close> tests, the result of each \<^verbatim>\<open>fgets\<close> (\<open>None\<close> for \<^verbatim>\<open>NULL\<close>), the results of
  the system calls of a reconnection, the RPM value read under the mutex, the two
  tick values for the controller and the result of \<^verbatim>\<open>fputs\<close>.
\<close>

record cycle_input =
  ci_ready :: int
  ci_eintr :: bool
  ci_stdin_isset :: bool
  ci_stdin_line :: "string option"
  ci_pipe_isset :: bool
  ci_pipe_line :: "string option"
  ci_open_fd :: int
  ci_fdopen_ok :: bool
  ci_rpm :: real
  ci_tick1 :: u32
  ci_tick2 :: u32
  ci_fputs_ok :: bool
  ci_rpm_open_fd :: int
  ci_rpm_fdopen_ok :: bool

datatype outcome = Continue (outcome_state: state) | Break (outcome_state: state)

text \<open>
  The body of the loop, one definition for each of its commented parts, in the order
  of the source: keyboard input (lines 788 to 791), pipe input (794 to 805), pipe
  reconnection (808 to 814), periodic work on a timeout (817 to 854), reconnection of
  the RPM pipe (857 to 864).
\<close>

definition checkKeyboard ::
  "(string \<Rightarrow> real) \<Rightarrow> (string \<Rightarrow> int) \<Rightarrow> cycle_input \<Rightarrow> state \<Rightarrow> outcome" where
  "checkKeyboard atof atoi ci s =
     (if ci_ready ci > 0 \<and> ci_stdin_isset ci
      then (case ci_stdin_line ci of
              None \<Rightarrow> Break s
            | Some line \<Rightarrow> Continue (processCommand atof atoi line s))
      else Continue s)"

definition checkPipe ::
  "(string \<Rightarrow> real) \<Rightarrow> (string \<Rightarrow> int) \<Rightarrow> cycle_input \<Rightarrow> state \<Rightarrow> state" where
  "checkPipe atof atoi ci s =
     (if g_pipe_fd s \<noteq> - 1 \<and> ci_ready ci > 0 \<and> ci_pipe_isset ci
      then (case ci_pipe_line ci of
              None \<Rightarrow> closePipe ((motorOff s)\<lparr>g_control_mode := 0\<rparr>)
            | Some line \<Rightarrow> processCommand atof atoi line s)
      else s)"

definition reconnectPipe :: "cycle_input \<Rightarrow> state \<Rightarrow> state" where
  "reconnectPipe ci s =
     (if g_pipe_fd s = - 1
      then (let s1 = s\<lparr>pipe_reconnect_timer := pipe_reconnect_timer s + 1\<rparr>
            in if pipe_reconnect_timer s1 \<ge> 10
               then openPipe (ci_open_fd ci) (ci_fdopen_ok ci) (s1\<lparr>pipe_reconnect_timer := 0\<rparr>)
               else s1)
      else s)"

definition periodic :: "cycle_input \<Rightarrow> state \<Rightarrow> state" where
  "periodic ci s =
     (if ci_ready ci = 0
      then (let rpm = ci_rpm ci;
                s1 = (if g_control_mode s = 1 \<and> g_motor_on s \<noteq> 0
                      then (case pidController (ci_tick1 ci) (ci_tick2 ci) rpm (g_desired_rpm s) s of
                              (new_speed, s') \<Rightarrow>
                                if new_speed \<noteq> g_speed s' then setSpeed new_speed s' else s')
                      else s)
            in sendRPM (ci_fputs_ok ci) rpm s1)
      else s)"

definition reconnectRPMPipe :: "cycle_input \<Rightarrow> state \<Rightarrow> state" where
  "reconnectRPMPipe ci s =
     (if g_rpm_pipe_fd s = - 1
      then (let s1 = s\<lparr>rpm_reconnect_timer := rpm_reconnect_timer s + 1\<rparr>
            in if rpm_reconnect_timer s1 \<ge> 10
               then openRPMPipe (ci_rpm_open_fd ci) (ci_rpm_fdopen_ok ci)
                      (s1\<lparr>rpm_reconnect_timer := 0\<rparr>)
               else s1)
      else s)"

definition mainCycle ::
  "(string \<Rightarrow> real) \<Rightarrow> (string \<Rightarrow> int) \<Rightarrow> cycle_input \<Rightarrow> state \<Rightarrow> outcome" where
  "mainCycle atof atoi ci s =
     (if ci_ready ci < 0 then (if ci_eintr ci then Continue s else Break s)
      else (case checkKeyboard atof atoi ci s of
              Break s1 \<Rightarrow> Break s1
            | Continue s1 \<Rightarrow>
                Continue (reconnectRPMPipe ci (periodic ci (reconnectPipe ci
                  (checkPipe atof atoi ci s1))))))"

text \<open>
  \<^verbatim>\<open>cleanup\<close> runs when the loop is left (and on a signal); the process exits there.
\<close>

definition cleanup :: "state \<Rightarrow> state" where
  "cleanup s = closeRPMPipe (closePipe (motorOff (s\<lparr>g_quit := 1\<rparr>)))"

text \<open>
  The loop over the inputs of successive cycles: \<open>Break\<close> carries the state after
  \<^verbatim>\<open>cleanup\<close>, \<open>Continue\<close> the state of a loop still running when the inputs end.
  \<^verbatim>\<open>main\<close> calls \<^verbatim>\<open>motorOff()\<close> once before the loop.
\<close>

fun mainLoop ::
  "(string \<Rightarrow> real) \<Rightarrow> (string \<Rightarrow> int) \<Rightarrow> cycle_input list \<Rightarrow> state \<Rightarrow> outcome" where
  "mainLoop atof atoi [] s = (if g_quit s \<noteq> 0 then Break (cleanup s) else Continue s)"
| "mainLoop atof atoi (ci # rest) s =
     (if g_quit s \<noteq> 0 then Break (cleanup s)
      else (case mainCycle atof atoi ci s of
              Break s1 \<Rightarrow> Break (cleanup s1)
            | Continue s1 \<Rightarrow> mainLoop atof atoi rest s1))"

definition start_state :: state where
  "start_state = motorOff init_state"

text \<open>Inputs of a cycle for the examples: nothing is ready and the timeout expires.\<close>

definition idle_input :: cycle_input where
  "idle_input = \<lparr>ci_ready = 0, ci_eintr = False, ci_stdin_isset = False,
     ci_stdin_line = None, ci_pipe_isset = False, ci_pipe_line = None,
     ci_open_fd = - 1, ci_fdopen_ok = False, ci_rpm = 0, ci_tick1 = 0, ci_tick2 = 0,
     ci_fputs_ok = True, ci_rpm_open_fd = - 1, ci_rpm_fdopen_ok = False\<rparr>"

section \<open>RPM monitoring thread\<close>

text \<open>
  The state of \<^verbatim>\<open>rpmThread\<close>: its locals, the static \<^verbatim>\<open>last_update\<close> and the global
  \<^verbatim>\<open>g_current_rpm\<close> it publishes. The array \<^verbatim>\<open>pulse_times[1000]\<close> is a function from
  the index; every index the thread uses is reduced modulo 1000. The counters are
  \<^verbatim>\<open>unsigned long\<close> values that stay below 3000, modelled as \<open>nat\<close>. The global
  \<^verbatim>\<open>g_pulse_count\<close>, which the thread increments and nothing reads, is left out.
\<close>

record rpm_thread =
  last_state :: int
  pulse_times :: "nat \<Rightarrow> u32"
  pulse_count :: nat
  pulse_index :: nat
  last_update :: u32
  g_current_rpm :: real

definition NUM_BLADES :: nat where "NUM_BLADES = 3"
definition RPM_CALCULATION_WINDOW_MS :: nat where "RPM_CALCULATION_WINDOW_MS = 500"
definition RPM_UPDATE_INTERVAL_MS :: nat where "RPM_UPDATE_INTERVAL_MS = 100"

text \<open>
  The thread before its loop: no pulse recorded, \<^verbatim>\<open>last_state\<close> read from the sensor.
\<close>

definition rpm_thread_start :: "int \<Rightarrow> rpm_thread" where
  "rpm_thread_start sensor =
     \<lparr>last_state = sensor, pulse_times = (\<lambda>_. 0), pulse_count = 0, pulse_index = 0,
      last_update = 0, g_current_rpm = 0\<rparr>"

text \<open>Lines 124 to 128: an edge at tick \<open>t\<close> goes into the ring.\<close>

definition recordEdge :: "u32 \<Rightarrow> rpm_thread \<Rightarrow> rpm_thread" where
  "recordEdge t th =
     th\<lparr>pulse_times := (pulse_times th)(pulse_index th := t),
        pulse_index := (pulse_index th + 1) mod 1000,
        pulse_count := (if pulse_count th < 1000 then pulse_count th + 1 else pulse_count th)\<rparr>"

text \<open>
  Lines 170 to 175, the test on one pulse of the ring:
  \<^verbatim>\<open>
  if (current_time >= pulse_time) {
      uint32_t age = current_time - pulse_time;
      if (age <= (RPM_CALCULATION_WINDOW_MS * 1000)) pulses_in_window++;
  }
  \<close>
\<close>

definition pulse_in_window :: "u32 \<Rightarrow> u32 \<Rightarrow> bool" where
  "pulse_in_window current_time pulse_time =
     (if current_time \<ge> pulse_time
      then (let age = current_time - pulse_time
            in age \<le> of_nat (RPM_CALCULATION_WINDOW_MS * 1000))
      else False)"

text \<open>
  The loop of lines 165 to 176 over \<open>i\<close>, with the running count
  \<open>pulses_in_window\<close>. The variables \<^verbatim>\<open>window_ago\<close> and \<^verbatim>\<open>window_ago_adjusted\<close> of lines
  155 to 159 are computed in the source and never used.
\<close>

function scan_loop :: "u32 \<Rightarrow> (nat \<Rightarrow> u32) \<Rightarrow> nat \<Rightarrow> nat \<Rightarrow> nat \<Rightarrow> nat \<Rightarrow> nat" where
  "scan_loop current_time ring index count_to_check i pulses_in_window =
     (if i < count_to_check
      then (let idx = (index + 1000 - count_to_check + i) mod 1000;
                pulse_time = ring idx
            in scan_loop current_time ring index count_to_check (i + 1)
                 (if pulse_in_window current_time pulse_time
                  then pulses_in_window + 1 else pulses_in_window))
      else pulses_in_window)"
  by pat_completeness auto
termination
  by (relation "measure (\<lambda>(current_time, ring, index, count_to_check, i, acc).
        count_to_check - i)") auto

declare scan_loop.simps [simp del]

text \<open>Lines 150 to 191: the estimate is recomputed and published.\<close>

definition recomputeRPM :: "u32 \<Rightarrow> rpm_thread \<Rightarrow> rpm_thread" where
  "recomputeRPM current_time th =
     (if pulse_count th > 0
      then (let count_to_check = (if pulse_count th < 1000 then pulse_count th else 1000);
                pulses_in_window =
                  scan_loop current_time (pulse_times th) (pulse_index th) count_to_check 0 0;
                window_seconds = real RPM_CALCULATION_WINDOW_MS / 1000
            in th\<lparr>g_current_rpm :=
                    (real pulses_in_window / real NUM_BLADES) * (60 / window_seconds)\<rparr>)
      else th\<lparr>g_current_rpm := 0\<rparr>)"

text \<open>
  One turn of the loop of \<^verbatim>\<open>rpmThread\<close> (lines 115 to 196): \<open>current_state\<close> is the
  sensor level read, \<open>edge_time\<close> the tick read at line 120 when there is an edge, and
  \<open>current_time\<close> the tick read at line 135.
\<close>

definition rpmThread_step :: "int \<Rightarrow> u32 \<Rightarrow> u32 \<Rightarrow> rpm_thread \<Rightarrow> rpm_thread" where
  "rpmThread_step current_state edge_time current_time th =
     (let th1 = (if last_state th \<noteq> - 1 \<and> last_state th \<noteq> current_state
                 then recordEdge edge_time th else th);
          th2 = th1\<lparr>last_state := current_state\<rparr>;
          th3 = (if last_update th2 = 0 then th2\<lparr>last_update := current_time\<rparr> else th2);
          elapsed = elapsed_since current_time (last_update th3)
      in if elapsed \<ge> of_nat (RPM_UPDATE_INTERVAL_MS * 1000)
         then (recomputeRPM current_time th3)\<lparr>last_update := current_time\<rparr>
         else th3)"

subsection \<open>The reference definition of the specification\<close>

text \<open>
  The estimate as the specification words it, over the list of all edge timestamps in
  the order they were recorded: the age of a timestamp is
  \<^verbatim>\<open>now >= t ? now - t : (MAX_TICK - t) + now\<close>; the scan covers the most recent
  \<open>min(totalCount, capacity)\<close> entries, capacity 1000; the estimate is
  \<open>(edgesInWindow / bladesPerRevolution) * (60 / windowSeconds)\<close>, and 0 if no edge was
  ever recorded.
\<close>

definition spec_age :: "u32 \<Rightarrow> u32 \<Rightarrow> u32" where
  "spec_age now t = (if now \<ge> t then now - t else (0xFFFFFFFF - t) + now)"

definition spec_recent :: "u32 list \<Rightarrow> u32 list" where
  "spec_recent edges = take 1000 (rev edges)"

definition spec_edges_in_window :: "u32 \<Rightarrow> u32 list \<Rightarrow> nat" where
  "spec_edges_in_window now edges =
     length (filter (\<lambda>t. spec_age now t \<le> 500000) (spec_recent edges))"

definition spec_rpm :: "u32 \<Rightarrow> u32 list \<Rightarrow> real" where
  "spec_rpm now edges =
     (if edges = [] then 0
      else (real (spec_edges_in_window now edges) / real NUM_BLADES) * (60 / (1 / 2)))"

section \<open>Concrete inputs for the examples\<close>

text \<open>
  The theorems below hold for every \<^verbatim>\<open>atof\<close> and \<^verbatim>\<open>atoi\<close>. For the examples, the two
  functions read an unsigned decimal number, which is what the C library does on a
  string of digits.
\<close>

fun digits_value :: "int \<Rightarrow> string \<Rightarrow> int" where
  "digits_value acc [] = acc"
| "digits_value acc (c # cs) =
     (if 48 \<le> (of_char c :: nat) \<and> (of_char c :: nat) \<le> 57
      then digits_value (10 * acc + (of_char c - 48)) cs else acc)"

definition atoi_dec :: "string \<Rightarrow> int" where
  "atoi_dec str = digits_value 0 str"

definition atof_dec :: "string \<Rightarrow> real" where
  "atof_dec str = real_of_int (digits_value 0 str)"

text \<open>
  \<open>auto_state\<close>: the program right after the command \<^verbatim>\<open>auto 1500\<close> at start (motor
  started at 30 percent). \<open>cruise_state\<close>: after \<^verbatim>\<open>s 80\<close> and then \<^verbatim>\<open>auto 1500\<close> (motor
  running at 80 percent under automatic control).
\<close>

definition auto_state :: state where
  "auto_state = processCommand atof_dec atoi_dec ''auto 1500'' start_state"

definition cruise_state :: state where
  "cruise_state =
     processCommand atof_dec atoi_dec ''auto 1500''
       (processCommand atof_dec atoi_dec ''s 80'' start_state)"

lemmas motor_defs =
  motorOn_def motorOff_def setSpeed_def setDirection_def gpioWrite_def gpioPWM_def
  clamp_speed_def

lemma start_state_fields:
  "g_control_mode start_state = 0" "g_motor_on start_state = 0" "g_speed start_state = 0"
  "g_last_speed_change_time start_state = 0" "g_pid_integral start_state = 0"
  "g_pid_last_error start_state = 0" "g_pipe_fd start_state = - 1" "g_quit start_state = 0"
  by (simp_all add: start_state_def init_state_def motor_defs)

lemma auto_state_fields:
  "g_control_mode auto_state = 1" "g_motor_on auto_state = 1" "g_speed auto_state = 30"
  "g_desired_rpm auto_state = 1500" "g_last_speed_change_time auto_state = 0"
  "g_pid_integral auto_state = 0" "g_pid_last_error auto_state = 0"
  "g_pipe_fd auto_state = - 1" "g_quit auto_state = 0"
  "gpio_pwm auto_state MOTOR_ENABLE_PIN = 76"
  by (simp_all add: auto_state_def processCommand_def strip_line_def Let_def atof_dec_def
      start_state_def init_state_def motor_defs)

lemma cruise_state_fields:
  "g_control_mode cruise_state = 1" "g_motor_on cruise_state = 1" "g_speed cruise_state = 80"
  "g_desired_rpm cruise_state = 1500" "g_last_speed_change_time cruise_state = 0"
  "g_pid_integral cruise_state = 0" "g_pid_last_error cruise_state = 0"
  by (simp_all add: cruise_state_def processCommand_def strip_line_def Let_def atof_dec_def
      atoi_dec_def start_state_def init_state_def motor_defs)

section \<open>Properties of the PID controller\<close>

lemma c_trunc_bound: "- 2 \<le> x \<Longrightarrow> x \<le> 2 \<Longrightarrow> - 2 \<le> c_trunc x \<and> c_trunc x \<le> 2"
  unfolding c_trunc_def
  by (auto simp: floor_le_iff le_ceiling_iff le_floor_iff ceiling_le_iff)

lemma rate_limit_bound: "- 2 \<le> c_trunc (rate_limit x) \<and> c_trunc (rate_limit x) \<le> 2"
  by (rule c_trunc_bound) (simp_all add: rate_limit_def Let_def MAX_SPEED_CHANGE_def)

lemma clamp_percent_range: "0 \<le> clamp_percent n \<and> clamp_percent n \<le> 100"
  by (simp add: clamp_percent_def Let_def)

lemma kickstart_range:
  "0 \<le> n \<Longrightarrow> n \<le> 100 \<Longrightarrow> 0 \<le> kickstart cur n \<and> kickstart cur n \<le> 100"
  by (simp add: kickstart_def)

lemma new_speed_cases:
  assumes "0 \<le> cur" "cur \<le> 100" "- 2 \<le> k" "k \<le> 2"
  shows "(cur \<noteq> 0 \<longrightarrow> \<bar>kickstart cur (clamp_percent (cur + k)) - cur\<bar> \<le> 2) \<and>
         (cur = 0 \<longrightarrow> kickstart cur (clamp_percent (cur + k)) = 0 \<or>
                        kickstart cur (clamp_percent (cur + k)) = 20)"
  using assms unfolding kickstart_def clamp_percent_def Let_def by auto

text \<open>The three paths through \<^verbatim>\<open>pidController\<close>: full stop, stabilization gate, update.\<close>

lemma pid_stop:
  "d < 1 \<Longrightarrow> pidController t1 t2 c d s =
     (0, s\<lparr>g_pid_integral := 0, g_pid_last_error := 0, g_last_speed_change_time := 0\<rparr>)"
  by (simp add: pidController_def)

lemma pid_gate:
  "\<not> d < 1 \<Longrightarrow>
   g_last_speed_change_time s > 0 \<and>
     elapsed_since t1 (g_last_speed_change_time s) < RPM_STABILIZE_DELAY_US \<Longrightarrow>
   pidController t1 t2 c d s = (g_speed s, s)"
  by (simp add: pidController_def)

lemma pid_active:
  "\<not> d < 1 \<Longrightarrow>
   \<not> (g_last_speed_change_time s > 0 \<and>
      elapsed_since t1 (g_last_speed_change_time s) < RPM_STABILIZE_DELAY_US) \<Longrightarrow>
   \<exists>a. fst (pidController t1 t2 c d s) =
         kickstart (g_speed s) (clamp_percent (g_speed s + c_trunc (rate_limit a)))"
  by (auto simp add: pidController_def Let_def)

text \<open>
  Claim C3, as stated: one call of \<^verbatim>\<open>pidController\<close> returns a speed within
  \<^verbatim>\<open>MAX_SPEED_CHANGE\<close> of the stored speed, for any stored speed in 0..100. It fails in
  two places. With the motor at 80 percent and a target below 1.0 the call returns 0;
  with a stored speed of 0 and a target of 1500 RPM the kickstart rule returns 20.
\<close>

theorem pidController_rate_limit_counterexample:
  "g_speed cruise_state = 80 \<and>
   fst (pidController 0 0 0 (1 / 2) cruise_state) = 0 \<and>
   \<not> \<bar>fst (pidController 0 0 0 (1 / 2) cruise_state) - g_speed cruise_state\<bar>
        \<le> MAX_SPEED_CHANGE \<and>
   g_speed start_state = 0 \<and>
   fst (pidController 0 0 0 1500 start_state) = 20 \<and>
   \<not> \<bar>fst (pidController 0 0 0 1500 start_state) - g_speed start_state\<bar>
        \<le> MAX_SPEED_CHANGE"
  by (simp add: pidController_def Let_def cruise_state_fields start_state_fields
      MAX_SPEED_CHANGE_def KP_def KI_def KD_def c_trunc_def rate_limit_def clamp_percent_def
      kickstart_def clamp_integral_def)

text \<open>
  Claim C3, amended. For every stored speed in 0..100, every measured and target RPM,
  every accumulator state and every tick: when the target is below 1.0 the call
  returns 0; when the target is at least 1.0 and the stored speed is not 0, the
  returned speed differs from the stored speed by at most \<^verbatim>\<open>MAX_SPEED_CHANGE\<close>; when
  the target is at least 1.0 and the stored speed is 0, the call returns 0 or the
  kickstart speed 20.
\<close>

theorem pidController_rate_limit:
  assumes "0 \<le> g_speed s" and "g_speed s \<le> 100"
  shows "(d < 1 \<longrightarrow> fst (pidController t1 t2 c d s) = 0) \<and>
         (1 \<le> d \<and> g_speed s \<noteq> 0 \<longrightarrow>
            \<bar>fst (pidController t1 t2 c d s) - g_speed s\<bar> \<le> MAX_SPEED_CHANGE) \<and>
         (1 \<le> d \<and> g_speed s = 0 \<longrightarrow>
            fst (pidController t1 t2 c d s) = 0 \<or> fst (pidController t1 t2 c d s) = 20)"
proof (cases "d < 1")
  case True
  then show ?thesis by (simp add: pidController_def)
next
  case False
  show ?thesis
  proof (cases "g_last_speed_change_time s > 0 \<and>
              elapsed_since t1 (g_last_speed_change_time s) < RPM_STABILIZE_DELAY_US")
    case True
    with False have "fst (pidController t1 t2 c d s) = g_speed s"
      by (simp add: pid_gate)
    then show ?thesis using False by (simp add: MAX_SPEED_CHANGE_def)
  next
    case gate: False
    from pid_active [OF False gate] obtain a where
      r: "fst (pidController t1 t2 c d s) =
            kickstart (g_speed s) (clamp_percent (g_speed s + c_trunc (rate_limit a)))"
      by blast
    show ?thesis
      using new_speed_cases [OF assms, of "c_trunc (rate_limit a)"] rate_limit_bound [of a] False
      unfolding r by (simp add: MAX_SPEED_CHANGE_def)
  qed
qed

theorem pidController_rate_limit_witness:
  "0 \<le> g_speed cruise_state \<and> g_speed cruise_state \<le> 100 \<and> g_speed cruise_state \<noteq> 0 \<and>
   (1::real) \<le> 1500 \<and>
   \<bar>fst (pidController 0 0 0 1500 cruise_state) - g_speed cruise_state\<bar> \<le> MAX_SPEED_CHANGE \<and>
   fst (pidController 0 0 0 1500 cruise_state) = 82 \<and>
   (1 / 2 :: real) < 1 \<and>
   fst (pidController 0 0 0 (1 / 2) cruise_state) = 0 \<and>
   0 \<le> g_speed start_state \<and> g_speed start_state \<le> 100 \<and> g_speed start_state = 0 \<and>
   (fst (pidController 0 0 0 1500 start_state) = 0 \<or>
    fst (pidController 0 0 0 1500 start_state) = 20)"
  using pidController_rate_limit [of cruise_state 1500 0 0 0]
    pidController_rate_limit [of cruise_state "1 / 2" 0 0 0]
    pidController_rate_limit [of start_state 1500 0 0 0]
  by (simp add: pidController_def Let_def cruise_state_fields start_state_fields
      MAX_SPEED_CHANGE_def KP_def KI_def KD_def c_trunc_def rate_limit_def clamp_percent_def
      kickstart_def clamp_integral_def)

text \<open>
  Claim C4. For every measured and target RPM, every accumulator state and every
  tick, with the stored speed in its range 0..100, \<^verbatim>\<open>pidController\<close> returns a value in
  0..100. Whenever the target is below 1.0 it returns exactly 0 and resets the
  integral, the last error and the time of the last speed change (0 is "unset"),
  whatever the measured RPM and the stored speed; nothing else changes.
\<close>

theorem pidController_range_and_reset:
  "(0 \<le> g_speed s \<and> g_speed s \<le> 100 \<longrightarrow>
      0 \<le> fst (pidController t1 t2 c d s) \<and> fst (pidController t1 t2 c d s) \<le> 100) \<and>
   (d < 1 \<longrightarrow>
      fst (pidController t1 t2 c d s) = 0 \<and>
      g_pid_integral (snd (pidController t1 t2 c d s)) = 0 \<and>
      g_pid_last_error (snd (pidController t1 t2 c d s)) = 0 \<and>
      g_last_speed_change_time (snd (pidController t1 t2 c d s)) = 0 \<and>
      snd (pidController t1 t2 c d s) =
        s\<lparr>g_pid_integral := 0, g_pid_last_error := 0, g_last_speed_change_time := 0\<rparr>)"
proof -
  have "0 \<le> fst (pidController t1 t2 c d s) \<and> fst (pidController t1 t2 c d s) \<le> 100"
    if "0 \<le> g_speed s" "g_speed s \<le> 100"
  proof (cases "d < 1")
    case True
    then show ?thesis by (simp add: pid_stop)
  next
    case False
    show ?thesis
    proof (cases "g_last_speed_change_time s > 0 \<and>
              elapsed_since t1 (g_last_speed_change_time s) < RPM_STABILIZE_DELAY_US")
      case True
      then show ?thesis using False that by (simp add: pid_gate)
    next
      case gate: False
      from pid_active [OF False gate] obtain a where
        r: "fst (pidController t1 t2 c d s) =
            kickstart (g_speed s) (clamp_percent (g_speed s + c_trunc (rate_limit a)))"
        by blast
      show ?thesis
        unfolding r using kickstart_range clamp_percent_range by blast
    qed
  qed
  then show ?thesis by (simp add: pid_stop)
qed

text \<open>
  The example of the specification: target 0 while the stored speed is 80, here with
  a measured RPM of 2000 and an accumulator that is not at rest.
\<close>

definition busy_state :: state where
  "busy_state = cruise_state\<lparr>g_pid_integral := 12, g_pid_last_error := 3,
     g_last_speed_change_time := 77\<rparr>"

theorem pidController_range_and_reset_witness:
  "0 \<le> g_speed busy_state \<and> g_speed busy_state \<le> 100 \<and> g_speed busy_state = 80 \<and>
   g_pid_integral busy_state = 12 \<and> (0::real) < 1 \<and>
   0 \<le> fst (pidController 7 9 2000 0 busy_state) \<and>
   fst (pidController 7 9 2000 0 busy_state) \<le> 100 \<and>
   fst (pidController 7 9 2000 0 busy_state) = 0 \<and>
   g_pid_integral (snd (pidController 7 9 2000 0 busy_state)) = 0 \<and>
   g_pid_last_error (snd (pidController 7 9 2000 0 busy_state)) = 0 \<and>
   g_last_speed_change_time (snd (pidController 7 9 2000 0 busy_state)) = 0"
  using pidController_range_and_reset [of busy_state 7 9 2000 0]
  by (simp add: busy_state_def cruise_state_fields)

section \<open>Properties of command processing\<close>

lemma processCommand_pipe_fd: "g_pipe_fd (processCommand atof atoi line s) = g_pipe_fd s"
  by (simp add: processCommand_def Let_def motorOn_def motorOff_def setSpeed_def
      setDirection_def gpioWrite_def gpioPWM_def)

lemma s_prefix_not_auto:
  assumes "take 2 x = ''s ''"
  shows "take 5 x \<noteq> ''auto ''"
proof
  assume h: "take 5 x = ''auto ''"
  have "take 2 (take 5 x) = take 2 x"
    by (simp add: min_def)
  with h assms show False by simp
qed

text \<open>
  Claim C7. While the control mode is Automatic (\<^verbatim>\<open>g_control_mode == 1\<close>), a line that
  after the removal of the line end is \<^verbatim>\<open>+\<close>, is \<^verbatim>\<open>-\<close>, or starts with \<^verbatim>\<open>s\<close> and a blank
  (the command \<^verbatim>\<open>s N\<close>) is rejected: \<^verbatim>\<open>processCommand\<close> returns the state unchanged,
  all of it.
\<close>

theorem automatic_rejects_manual_speed:
  assumes "g_control_mode s = 1"
    and "strip_line line = ''+'' \<or> strip_line line = ''-'' \<or>
         take 2 (strip_line line) = ''s ''"
  shows "processCommand atof atoi line s = s"
proof -
  have ne: "strip_line line \<noteq> []"
    using assms(2) by auto
  have a: "take 5 (strip_line line) \<noteq> ''auto ''"
    using assms(2) s_prefix_not_auto by auto
  have b: "strip_line line \<notin> {''manual'', ''on'', ''off'', ''f'', ''r'', ''rpm'', ''q''}"
    using assms(2) by auto
  show ?thesis
    using assms(1) ne a b by (simp add: processCommand_def Let_def)
qed

theorem automatic_rejects_manual_speed_witness:
  "g_control_mode auto_state = 1 \<and> strip_line (''+'' @ [CHR 0x0A]) = ''+'' \<and>
   processCommand atof_dec atoi_dec (''+'' @ [CHR 0x0A]) auto_state = auto_state \<and>
   strip_line ''-'' = ''-'' \<and>
   processCommand atof_dec atoi_dec ''-'' auto_state = auto_state \<and>
   take 2 (strip_line (''s 75'' @ [CHR 0x0A])) = ''s '' \<and>
   processCommand atof_dec atoi_dec (''s 75'' @ [CHR 0x0A]) auto_state = auto_state"
  using automatic_rejects_manual_speed [of auto_state "''+'' @ [CHR 0x0A]" atof_dec atoi_dec]
    automatic_rejects_manual_speed [of auto_state "''-''" atof_dec atoi_dec]
    automatic_rejects_manual_speed [of auto_state "''s 75'' @ [CHR 0x0A]" atof_dec atoi_dec]
  by (simp add: auto_state_fields strip_line_def)

text \<open>
  \<^verbatim>\<open>processCommand\<close> never writes the time of the last speed change, whatever the
  command.
\<close>

lemma processCommand_speed_change_time:
  "g_last_speed_change_time (processCommand atof atoi line s) = g_last_speed_change_time s"
  by (simp add: processCommand_def Let_def motor_defs)

section \<open>What the pipe functions leave unchanged\<close>

lemma motor_closePipe [simp]:
  "g_motor_on (closePipe s) = g_motor_on s" "g_control_mode (closePipe s) = g_control_mode s"
  "gpio_pwm (closePipe s) = gpio_pwm s" "gpio_level (closePipe s) = gpio_level s"
  "g_speed (closePipe s) = g_speed s" "g_pipe_fd (closePipe s) = - 1"
  by (simp_all add: closePipe_def Let_def)

lemma motor_reconnectPipe [simp]:
  "g_motor_on (reconnectPipe ci s) = g_motor_on s"
  "g_control_mode (reconnectPipe ci s) = g_control_mode s"
  "gpio_pwm (reconnectPipe ci s) = gpio_pwm s" "gpio_level (reconnectPipe ci s) = gpio_level s"
  "g_speed (reconnectPipe ci s) = g_speed s"
  by (simp_all add: reconnectPipe_def openPipe_def Let_def)

lemma motor_reconnectRPMPipe [simp]:
  "g_motor_on (reconnectRPMPipe ci s) = g_motor_on s"
  "g_control_mode (reconnectRPMPipe ci s) = g_control_mode s"
  "gpio_pwm (reconnectRPMPipe ci s) = gpio_pwm s"
  "gpio_level (reconnectRPMPipe ci s) = gpio_level s"
  "g_speed (reconnectRPMPipe ci s) = g_speed s"
  by (simp_all add: reconnectRPMPipe_def openRPMPipe_def Let_def)

lemma periodic_not_timeout: "ci_ready ci \<noteq> 0 \<Longrightarrow> periodic ci s = s"
  by (simp add: periodic_def)

lemma checkKeyboard_pipe_fd:
  "checkKeyboard atof atoi ci s = Continue s1 \<Longrightarrow> g_pipe_fd s1 = g_pipe_fd s"
  by (auto simp add: checkKeyboard_def processCommand_pipe_fd split: if_splits option.splits)

lemma checkPipe_eof:
  "g_pipe_fd s \<noteq> - 1 \<Longrightarrow> ci_ready ci > 0 \<Longrightarrow> ci_pipe_isset ci \<Longrightarrow> ci_pipe_line ci = None \<Longrightarrow>
   checkPipe atof atoi ci s = closePipe ((motorOff s)\<lparr>g_control_mode := 0\<rparr>)"
  by (simp add: checkPipe_def)

section \<open>The stored speed stays in 0..100\<close>

text \<open>
  Every assignment to \<^verbatim>\<open>g_speed\<close> is the clamped value of \<^verbatim>\<open>setSpeed\<close>, the 50 of
  \<^verbatim>\<open>motorOn\<close> or the 30 of the \<^verbatim>\<open>auto\<close> command, so the range 0..100 of the data model
  holds in every state the program reaches from its start.
\<close>

definition speed_ok :: "state \<Rightarrow> bool" where
  "speed_ok s = (0 \<le> g_speed s \<and> g_speed s \<le> 100)"

lemma g_speed_motorOff: "g_speed (motorOff s) = g_speed s"
  by (simp add: motorOff_def gpioWrite_def gpioPWM_def)

lemma g_speed_setDirection: "g_speed (setDirection d s) = g_speed s"
  by (simp add: setDirection_def gpioWrite_def Let_def)

lemma speed_ok_setSpeed: "speed_ok (setSpeed x s)"
  using clamp_speed_range [of x] by (simp add: speed_ok_def setSpeed_stored)

lemma speed_ok_motorOn: "speed_ok s \<Longrightarrow> speed_ok (motorOn s)"
  by (simp add: motorOn_def Let_def speed_ok_setSpeed)

lemma speed_ok_processCommand: "speed_ok s \<Longrightarrow> speed_ok (processCommand atof atoi line s)"
  unfolding processCommand_def Let_def
  by (simp add: speed_ok_setSpeed speed_ok_motorOn)
     (simp add: speed_ok_def g_speed_motorOff g_speed_setDirection)

lemma g_speed_pidController: "g_speed (snd (pidController t1 t2 c d s)) = g_speed s"
  by (simp add: pidController_def Let_def)

lemma g_speed_sendRPM: "g_speed (sendRPM ok rpm s) = g_speed s"
  by (simp add: sendRPM_def closeRPMPipe_def Let_def)

lemma speed_ok_periodic: "speed_ok s \<Longrightarrow> speed_ok (periodic ci s)"
proof -
  assume ok: "speed_ok s"
  obtain n s' where p: "pidController (ci_tick1 ci) (ci_tick2 ci) (ci_rpm ci) (g_desired_rpm s) s = (n, s')"
    by (cases "pidController (ci_tick1 ci) (ci_tick2 ci) (ci_rpm ci) (g_desired_rpm s) s")
  have "g_speed s' = g_speed s"
    using g_speed_pidController [of "ci_tick1 ci" "ci_tick2 ci" "ci_rpm ci" "g_desired_rpm s" s] p
    by simp
  then have "speed_ok s'" using ok by (simp add: speed_ok_def)
  then show ?thesis
    using ok p speed_ok_setSpeed [of n s']
    by (simp add: periodic_def Let_def speed_ok_def g_speed_sendRPM)
qed

lemma speed_ok_checkPipe: "speed_ok s \<Longrightarrow> speed_ok (checkPipe atof atoi ci s)"
  using speed_ok_processCommand [of s atof atoi]
  by (simp add: checkPipe_def speed_ok_def g_speed_motorOff split: option.splits)

lemma speed_ok_mainCycle: "speed_ok s \<Longrightarrow> speed_ok (outcome_state (mainCycle atof atoi ci s))"
proof -
  assume ok: "speed_ok s"
  have frame: "speed_ok (reconnectRPMPipe ci (periodic ci (reconnectPipe ci (checkPipe atof atoi ci x))))"
    if "speed_ok x" for x
  proof -
    have "speed_ok (reconnectPipe ci (checkPipe atof atoi ci x))"
      using speed_ok_checkPipe [OF that, of atof atoi ci] by (simp add: speed_ok_def)
    then have "speed_ok (periodic ci (reconnectPipe ci (checkPipe atof atoi ci x)))"
      by (rule speed_ok_periodic)
    then show ?thesis by (simp add: speed_ok_def)
  qed
  show ?thesis
    using ok frame [OF ok] frame [OF speed_ok_processCommand [OF ok]]
    by (simp add: mainCycle_def checkKeyboard_def split: option.splits)
qed

lemma speed_ok_cleanup: "speed_ok s \<Longrightarrow> speed_ok (cleanup s)"
  by (simp add: cleanup_def speed_ok_def closeRPMPipe_def closePipe_def Let_def g_speed_motorOff)

lemma speed_ok_mainLoop: "speed_ok s \<Longrightarrow> speed_ok (outcome_state (mainLoop atof atoi cs s))"
proof (induction cs arbitrary: s)
  case Nil
  then show ?case by (simp add: speed_ok_cleanup)
next
  case (Cons ci cs)
  have "speed_ok (outcome_state (mainCycle atof atoi ci s))"
    using Cons.prems by (rule speed_ok_mainCycle)
  then show ?case
    using Cons.IH Cons.prems 
    by (cases "mainCycle atof atoi ci s") (simp_all add: speed_ok_cleanup)
qed

lemma speed_ok_start: "speed_ok start_state"
  by (simp add: speed_ok_def start_state_fields)

section \<open>Properties of the control loop\<close>

text \<open>
  Claim C1. In a cycle where the command pipe is open, \<^verbatim>\<open>select\<close> reports it readable
  and \<^verbatim>\<open>fgets\<close> on it returns \<^verbatim>\<open>NULL\<close> (end of stream), the motor is hard-stopped
  and the mode is Manual as soon as the pipe part of the cycle is done, for every
  state before (motor on or off, any mode) and whatever the keyboard part did in the
  same cycle, provided it did not leave the loop. The reconnection part runs on that
  state, after it, and the state at the end of the cycle still has the motor off, the
  PWM at 0 and the mode Manual.
\<close>

theorem pipe_eof_forces_safe_stop:
  assumes fd: "g_pipe_fd s \<noteq> - 1" and ready: "ci_ready ci > 0"
    and isset: "ci_pipe_isset ci" and eof: "ci_pipe_line ci = None"
    and kb: "checkKeyboard atof atoi ci s = Continue s1"
  shows "g_motor_on (checkPipe atof atoi ci s1) = 0 \<and>
         gpio_pwm (checkPipe atof atoi ci s1) MOTOR_ENABLE_PIN = 0 \<and>
         gpio_level (checkPipe atof atoi ci s1) MOTOR_IN1_PIN = 0 \<and>
         gpio_level (checkPipe atof atoi ci s1) MOTOR_IN2_PIN = 0 \<and>
         g_control_mode (checkPipe atof atoi ci s1) = 0 \<and>
         g_pipe_fd (checkPipe atof atoi ci s1) = - 1 \<and>
         mainCycle atof atoi ci s =
           Continue (reconnectRPMPipe ci (periodic ci (reconnectPipe ci
             (checkPipe atof atoi ci s1)))) \<and>
         g_motor_on (outcome_state (mainCycle atof atoi ci s)) = 0 \<and>
         gpio_pwm (outcome_state (mainCycle atof atoi ci s)) MOTOR_ENABLE_PIN = 0 \<and>
         g_control_mode (outcome_state (mainCycle atof atoi ci s)) = 0"
proof -
  have fd1: "g_pipe_fd s1 \<noteq> - 1"
    using checkKeyboard_pipe_fd [OF kb] fd by simp
  have cp: "checkPipe atof atoi ci s1 = closePipe ((motorOff s1)\<lparr>g_control_mode := 0\<rparr>)"
    using checkPipe_eof [OF fd1 ready isset eof] .
  have safe: "g_motor_on (checkPipe atof atoi ci s1) = 0 \<and>
         gpio_pwm (checkPipe atof atoi ci s1) MOTOR_ENABLE_PIN = 0 \<and>
         gpio_level (checkPipe atof atoi ci s1) MOTOR_IN1_PIN = 0 \<and>
         gpio_level (checkPipe atof atoi ci s1) MOTOR_IN2_PIN = 0 \<and>
         g_control_mode (checkPipe atof atoi ci s1) = 0 \<and>
         g_pipe_fd (checkPipe atof atoi ci s1) = - 1"
    unfolding cp by (simp add: motorOff_def gpioWrite_def gpioPWM_def)
  have mc: "mainCycle atof atoi ci s =
           Continue (reconnectRPMPipe ci (periodic ci (reconnectPipe ci
             (checkPipe atof atoi ci s1))))"
    using ready kb by (simp add: mainCycle_def)
  have per: "periodic ci (reconnectPipe ci (checkPipe atof atoi ci s1)) = reconnectPipe ci (checkPipe atof atoi ci s1)"
    using ready by (simp add: periodic_not_timeout)
  show ?thesis
    using safe mc per by simp
qed

text \<open>
  The example: the motor runs at 80 percent under automatic control, the pipe is
  open on descriptor 5 and its writer closes.
\<close>

definition connected_state :: state where
  "connected_state = openPipe 5 True cruise_state"

definition eof_input :: cycle_input where
  "eof_input = idle_input\<lparr>ci_ready := 1, ci_pipe_isset := True, ci_pipe_line := None\<rparr>"

lemma connected_state_fields:
  "g_pipe_fd connected_state = 5" "g_motor_on connected_state = 1" "g_control_mode connected_state = 1"
  "g_speed connected_state = 80"
  by (simp_all add: connected_state_def openPipe_def Let_def cruise_state_fields)

theorem pipe_eof_forces_safe_stop_witness:
  "g_pipe_fd connected_state = 5 \<and> g_motor_on connected_state = 1 \<and>
   g_control_mode connected_state = 1 \<and> g_speed connected_state = 80 \<and>
   ci_ready eof_input = 1 \<and> ci_pipe_isset eof_input \<and> ci_pipe_line eof_input = None \<and>
   checkKeyboard atof_dec atoi_dec eof_input connected_state = Continue connected_state \<and>
   g_motor_on (outcome_state (mainCycle atof_dec atoi_dec eof_input connected_state)) = 0 \<and>
   gpio_pwm (outcome_state (mainCycle atof_dec atoi_dec eof_input connected_state)) MOTOR_ENABLE_PIN = 0 \<and>
   g_control_mode (outcome_state (mainCycle atof_dec atoi_dec eof_input connected_state)) = 0"
proof -
  have r: "ci_ready eof_input = 1" "ci_pipe_isset eof_input" "ci_pipe_line eof_input = None"
    "\<not> ci_stdin_isset eof_input"
    by (simp_all add: eof_input_def idle_input_def)
  have kb: "checkKeyboard atof_dec atoi_dec eof_input connected_state = Continue connected_state"
    by (simp add: checkKeyboard_def r)
  have fd: "g_pipe_fd connected_state \<noteq> - 1"
    by (simp add: connected_state_fields)
  have pos: "ci_ready eof_input > 0"
    by (simp add: r)
  show ?thesis
    using pipe_eof_forces_safe_stop [OF fd pos r(2) r(3) kb] kb r(1-3) connected_state_fields by blast
qed

section \<open>Re-entering Automatic mode\<close>

text \<open>Inputs of a cycle: a line typed on the keyboard; a timeout with given ticks and RPM.\<close>

definition keyboard_line :: "string \<Rightarrow> cycle_input" where
  "keyboard_line line = idle_input\<lparr>ci_ready := 1, ci_stdin_isset := True, ci_stdin_line := Some line\<rparr>"

definition timeout_at :: "u32 \<Rightarrow> u32 \<Rightarrow> real \<Rightarrow> cycle_input" where
  "timeout_at t1 t2 rpm = idle_input\<lparr>ci_tick1 := t1, ci_tick2 := t2, ci_rpm := rpm\<rparr>"

definition reentry_inputs :: "cycle_input list" where
  "reentry_inputs =
     [keyboard_line (''auto 1500'' @ [CHR 0x0A]), timeout_at 1000 1001 0,
      keyboard_line (''auto 2000'' @ [CHR 0x0A])]"

lemmas loop_defs =
  mainCycle_def checkKeyboard_def checkPipe_def reconnectPipe_def periodic_def
  reconnectRPMPipe_def openPipe_def openRPMPipe_def sendRPM_def
  keyboard_line_def timeout_at_def idle_input_def

lemmas pid_defs =
  pidController_def KP_def KI_def KD_def MAX_SPEED_CHANGE_def c_trunc_def rate_limit_def
  clamp_percent_def kickstart_def clamp_integral_def MAX_INTEGRAL_def
  elapsed_since_def RPM_STABILIZE_DELAY_US_def

lemmas command_defs =
  processCommand_def strip_line_def atof_dec_def atoi_dec_def

text \<open>
  Claim C8 says that the \<^verbatim>\<open>auto N\<close> command resets all three fields of the PID state.
  The code resets the integral and the last error and leaves the time of the last
  speed change as it is. A run from the start of the program: \<^verbatim>\<open>auto 1500\<close>, then a
  timeout at tick 1000 in which the controller raises the speed from 30 to 32 and
  stamps the change with tick 1001, then \<^verbatim>\<open>auto 2000\<close>. After the second command the
  mode is Automatic with target 2000, the integral and the last error are 0, and the
  time of the last speed change is still 1001.
\<close>

theorem auto_reentry_keeps_speed_change_time:
  "g_last_speed_change_time (outcome_state (mainLoop atof_dec atoi_dec (take 2 reentry_inputs) start_state)) = 1001 \<and>
   g_pid_last_error (outcome_state (mainLoop atof_dec atoi_dec (take 2 reentry_inputs) start_state)) = 1500 \<and>
   g_control_mode (outcome_state (mainLoop atof_dec atoi_dec reentry_inputs start_state)) = 1 \<and>
   g_desired_rpm (outcome_state (mainLoop atof_dec atoi_dec reentry_inputs start_state)) = 2000 \<and>
   g_pid_integral (outcome_state (mainLoop atof_dec atoi_dec reentry_inputs start_state)) = 0 \<and>
   g_pid_last_error (outcome_state (mainLoop atof_dec atoi_dec reentry_inputs start_state)) = 0 \<and>
   g_last_speed_change_time (outcome_state (mainLoop atof_dec atoi_dec reentry_inputs start_state)) = 1001"
  by (simp add: reentry_inputs_def loop_defs pid_defs command_defs motor_defs start_state_def init_state_def Let_def)


section \<open>Properties of the RPM estimator\<close>

text \<open>
  The loop counts the entries of the ring that pass the window test, over the indices
  it visits.
\<close>

lemma scan_loop_count:
  "scan_loop now ring index c i acc =
     acc + length (filter (\<lambda>j. pulse_in_window now (ring ((index + 1000 - c + j) mod 1000))) [i..<c])"
proof (induction now ring index c i acc rule: scan_loop.induct)
  case (1 now ring index c i acc)
  show ?case
  proof (cases "i < c")
    case True
    then have u: "[i..<c] = i # [i + 1..<c]" by (simp add: upt_conv_Cons)
    show ?thesis
      using True "1.IH" [OF True refl refl]
      by (subst scan_loop.simps) (simp add: u Let_def)
  next
    case False
    then show ?thesis by (subst scan_loop.simps) simp
  qed
qed

text \<open>
  The ring after recording a list of edges, starting from the empty ring: the write
  index and the saturating count follow the length of the list, and each of the last
  1000 edges is in its slot.
\<close>

lemma mod_1000_distinct:
  fixes m n :: nat
  assumes "m < n" "n < m + 1000"
  shows "n mod 1000 \<noteq> m mod 1000"
proof
  assume "n mod 1000 = m mod 1000"
  then have "(n - m) mod 1000 = 0"
    using assms(1) by (metis less_imp_le_nat mod_eq_dvd_iff_nat dvd_imp_mod_0)
  moreover have "0 < n - m" "n - m < 1000" using assms by auto
  ultimately show False by auto
qed

lemma ring_invariant:
  assumes "pulse_index th0 = 0" "pulse_count th0 = 0"
  shows "pulse_index (fold recordEdge h th0) = length h mod 1000 \<and>
         pulse_count (fold recordEdge h th0) = min (length h) 1000 \<and>
         (\<forall>m < length h. length h \<le> m + 1000 \<longrightarrow>
            pulse_times (fold recordEdge h th0) (m mod 1000) = h ! m)"
proof (induction h rule: rev_induct)
  case Nil
  then show ?case using assms by simp
next
  case (snoc t h)
  let ?th = "fold recordEdge h th0"
  have idx: "pulse_index ?th = length h mod 1000"
    and cnt: "pulse_count ?th = min (length h) 1000"
    and ent: "\<And>m. m < length h \<Longrightarrow> length h \<le> m + 1000 \<Longrightarrow> pulse_times ?th (m mod 1000) = h ! m"
    using snoc.IH by auto
  have f: "fold recordEdge (h @ [t]) th0 = recordEdge t ?th" by simp
  have a: "pulse_index (recordEdge t ?th) = length (h @ [t]) mod 1000"
    by (simp add: recordEdge_def idx mod_Suc_eq)
  have b: "pulse_count (recordEdge t ?th) = min (length (h @ [t])) 1000"
    by (simp add: recordEdge_def cnt)
  have c: "pulse_times (recordEdge t ?th) (m mod 1000) = (h @ [t]) ! m"
    if "m < length (h @ [t])" "length (h @ [t]) \<le> m + 1000" for m
  proof (cases "m = length h")
    case True
    then show ?thesis by (simp add: recordEdge_def idx)
  next
    case False
    then have lt: "m < length h" using that(1) by simp
    have "length h < m + 1000" using that(2) by simp
    then have ne: "length h mod 1000 \<noteq> m mod 1000"
      using mod_1000_distinct [OF lt] by simp
    have "pulse_times (recordEdge t ?th) (m mod 1000) = pulse_times ?th (m mod 1000)"
      using ne by (simp add: recordEdge_def idx)
    also have "\<dots> = h ! m" using ent [OF lt] that(2) by simp
    finally show ?thesis using lt by (simp add: nth_append)
  qed
  show ?case unfolding f using a b c by blast
qed

lemma scanned_entries:
  fixes h :: "u32 list"
  assumes "pulse_index th0 = 0" "pulse_count th0 = 0"
    and th: "th = fold recordEdge h th0"
    and c: "c = min (length h) 1000"
  shows "map (\<lambda>j. pulse_times th ((pulse_index th + 1000 - c + j) mod 1000)) [0..<c] =
         drop (length h - c) h"
proof (rule nth_equalityI)
  show "length (map (\<lambda>j. pulse_times th ((pulse_index th + 1000 - c + j) mod 1000)) [0..<c]) =
        length (drop (length h - c) h)"
    by (simp add: c)
next
  fix j
  assume "j < length (map (\<lambda>j. pulse_times th ((pulse_index th + 1000 - c + j) mod 1000)) [0..<c])"
  then have j: "j < c" by simp
  have cle: "c \<le> length h" "c \<le> 1000" by (simp_all add: c)
  let ?m = "length h - c + j"
  have m1: "?m < length h" using j cle by simp
  have m2: "length h \<le> ?m + 1000" using cle by simp
  have inv: "pulse_index th = length h mod 1000"
    "\<And>m. m < length h \<Longrightarrow> length h \<le> m + 1000 \<Longrightarrow> pulse_times th (m mod 1000) = h ! m"
    using ring_invariant [OF assms(1,2), of h] by (simp_all add: th)
  define q where "q = length h mod 1000"
  have "pulse_index th + 1000 - c + j = q + (1000 - c + j)"
    using inv(1) cle(2) unfolding q_def [symmetric] by linarith
  then have "(pulse_index th + 1000 - c + j) mod 1000 = (length h mod 1000 + (1000 - c + j)) mod 1000"
    by (simp only: q_def)
  also have "\<dots> = (length h + (1000 - c + j)) mod 1000"
    by (simp add: mod_add_left_eq)
  also have "length h + (1000 - c + j) = ?m + 1000" using cle by linarith
  also have "(?m + 1000) mod 1000 = ?m mod 1000" by simp
  finally have "pulse_times th ((pulse_index th + 1000 - c + j) mod 1000) = pulse_times th (?m mod 1000)"
    by simp
  also have "\<dots> = h ! ?m"
    using inv(2) [OF m1 m2] .
  finally show "map (\<lambda>j. pulse_times th ((pulse_index th + 1000 - c + j) mod 1000)) [0..<c] ! j =
        drop (length h - c) h ! j"
    using j cle by simp
qed


text \<open>
  So the estimate is computed from the number of the most recent edges that pass the
  window test of the code, and it is 0 when no edge was ever recorded.
\<close>

lemma spec_recent_drop: "spec_recent h = rev (drop (length h - min (length h) 1000) h)"
proof -
  have "length h - min (length h) 1000 = length h - 1000" by simp
  then show ?thesis by (simp add: spec_recent_def take_rev)
qed

lemma length_filter_rev: "length (filter P (rev xs)) = length (filter P xs)"
  by (simp add: rev_filter [symmetric])

lemma recomputeRPM_edges:
  assumes "pulse_index th0 = 0" "pulse_count th0 = 0"
  shows "g_current_rpm (recomputeRPM now (fold recordEdge h th0)) =
         (if h = [] then 0
          else (real (length (filter (pulse_in_window now) (spec_recent h))) / real NUM_BLADES) * 120)"
proof (cases "h = []")
  case True
  then show ?thesis using assms by (simp add: recomputeRPM_def)
next
  case False
  define th where "th = fold recordEdge h th0"
  define c where "c = min (length h) 1000"
  have cnt: "pulse_count th = c"
    using ring_invariant [OF assms, of h] by (simp add: th_def c_def)
  have pos: "pulse_count th > 0" using False by (simp add: cnt c_def)
  have ctc: "(if pulse_count th < 1000 then pulse_count th else 1000) = c"
    by (simp add: cnt c_def)
  have "scan_loop now (pulse_times th) (pulse_index th) c 0 0 =
        length (filter (\<lambda>j. pulse_in_window now
                  (pulse_times th ((pulse_index th + 1000 - c + j) mod 1000))) [0..<c])"
    by (simp add: scan_loop_count)
  also have "\<dots> = length (filter (pulse_in_window now)
        (map (\<lambda>j. pulse_times th ((pulse_index th + 1000 - c + j) mod 1000)) [0..<c]))"
    by (simp add: filter_map comp_def)
  also have "\<dots> = length (filter (pulse_in_window now) (drop (length h - c) h))"
    by (simp only: scanned_entries [OF assms th_def c_def])
  also have "\<dots> = length (filter (pulse_in_window now) (spec_recent h))"
    by (simp only: spec_recent_drop length_filter_rev c_def)
  finally have k: "scan_loop now (pulse_times th) (pulse_index th) c 0 0 =
        length (filter (pulse_in_window now) (spec_recent h))" .
  have "g_current_rpm (recomputeRPM now th) =
        (real (length (filter (pulse_in_window now) (spec_recent h))) / real NUM_BLADES) * 120"
    using pos by (simp add: recomputeRPM_def ctc k Let_def RPM_CALCULATION_WINDOW_MS_def)
  then show ?thesis using False by (simp add: th_def)
qed

text \<open>
  While no scanned timestamp is above the query tick (the counter did not wrap
  between the edge and the query), the window test agrees with the age of the
  specification and the published estimate is the reference estimate.
\<close>

lemma pulse_in_window_no_wrap:
  "t \<le> now \<Longrightarrow> pulse_in_window now t = (spec_age now t \<le> 500000)"
  by (simp add: pulse_in_window_def spec_age_def RPM_CALCULATION_WINDOW_MS_def)

lemma recomputeRPM_refines_spec:
  assumes "pulse_index th0 = 0" "pulse_count th0 = 0"
    and "\<forall>t \<in> set (spec_recent h). t \<le> now"
  shows "g_current_rpm (recomputeRPM now (fold recordEdge h th0)) = spec_rpm now h"
proof -
  have "filter (pulse_in_window now) (spec_recent h) =
        filter (\<lambda>t. spec_age now t \<le> 500000) (spec_recent h)"
    using assms(3) by (intro filter_cong) (simp_all add: pulse_in_window_no_wrap)
  then show ?thesis
    by (simp add: recomputeRPM_edges [OF assms(1,2)] spec_rpm_def spec_edges_in_window_def)
qed

lemma rpm_empty: "pulse_count th = 0 \<Longrightarrow> g_current_rpm (recomputeRPM now th) = 0"
  by (simp add: recomputeRPM_def)

text \<open>
  The window test in numbers: a pulse passes when its timestamp is not above the query
  tick and the difference is at most 500000 microseconds. The elapsed-time computation
  is the difference of the ticks when the counter did not wrap, and one less than the
  wrapped difference when it did.
\<close>

lemma pulse_in_window_unat:
  "pulse_in_window now t = (unat t \<le> unat now \<and> unat now - unat t \<le> 500000)"
proof (cases "t \<le> now")
  case True
  then have "unat (now - t) = unat now - unat t"
    by (simp add: unat_sub)
  moreover have "(now - t \<le> 500000) = (unat (now - t) \<le> 500000)"
    by (simp add: word_le_nat_alt)
  ultimately show ?thesis
    using True by (simp add: pulse_in_window_def RPM_CALCULATION_WINDOW_MS_def word_le_nat_alt)
next
  case False
  then show ?thesis
    by (simp add: pulse_in_window_def word_le_nat_alt)
qed

lemma elapsed_since_no_wrap: "last_time \<le> now \<Longrightarrow> elapsed_since now last_time = now - last_time"
  by (simp add: elapsed_since_def Let_def)

lemma elapsed_since_wrap: "now < last_time \<Longrightarrow> elapsed_since now last_time = now - last_time - 1"
  by (simp add: elapsed_since_def Let_def)

text \<open>
  A run of the thread across a wrap of the tick: the sensor changes at tick
  4294900000, the tick wraps, the sensor changes again at tick 50000, and the estimate
  is recomputed at tick 50001.
\<close>

definition wrap_run :: rpm_thread where
  "wrap_run = rpmThread_step 0 50000 50001 (rpmThread_step 1 4294900000 4294900001 (rpm_thread_start 0))"

text \<open>
  Claim C5 says that the published estimate is \<open>(k / b) * 120\<close> for a log with \<open>k\<close>
  timestamps whose age is within the 500 ms window. In the run across the wrap both
  recorded edges are less than 0.12 s old at the query, so the reference estimate is
  \<open>(2 / 3) * 120 = 80\<close>; the thread publishes 40, because the scan skips the edge
  recorded before the wrap.
\<close>

theorem rpm_estimate_drops_edges_before_wrap:
  "pulse_count wrap_run = 2 \<and> g_current_rpm wrap_run = 40 \<and>
   spec_edges_in_window 50001 [4294900000, 50000] = 2 \<and>
   spec_rpm 50001 [4294900000, 50000] = 80"
  by (simp add: wrap_run_def rpmThread_step_def rpm_thread_start_def recordEdge_def Let_def
      elapsed_since_def RPM_UPDATE_INTERVAL_MS_def recomputeRPM_def scan_loop.simps
      pulse_in_window_def RPM_CALCULATION_WINDOW_MS_def NUM_BLADES_def
      spec_rpm_def spec_edges_in_window_def spec_recent_def spec_age_def)

text \<open>
  Claim C6 says that every age computation is safe at a wrap of the tick and gives
  the true elapsed time modulo \<open>2 ^ 32\<close>, and that a pulse recorded at 4294967290 and
  queried at 5 is counted as inside the window. The true elapsed time there is 11
  microseconds. The elapsed-time computation gives 10. The window test of the scan
  fails for this pulse, the scan over a ring holding it counts 0 and the published
  estimate is 0.
\<close>

theorem age_at_tick_wrap:
  "(5 :: u32) - 4294967290 = 11 \<and>
   elapsed_since 5 4294967290 = 10 \<and>
   \<not> pulse_in_window 5 4294967290 \<and>
   scan_loop 5 (pulse_times (recordEdge 4294967290 (rpm_thread_start 0)))
     (pulse_index (recordEdge 4294967290 (rpm_thread_start 0))) 1 0 0 = 0 \<and>
   g_current_rpm (recomputeRPM 5 (recordEdge 4294967290 (rpm_thread_start 0))) = 0"
  by (simp add: elapsed_since_def pulse_in_window_def RPM_CALCULATION_WINDOW_MS_def scan_loop.simps
      recordEdge_def rpm_thread_start_def recomputeRPM_def)


end
